theory Spec2Isabelle
  imports Complex_Main "HOL-Library.Sublist"
begin

section \<open>Strings and values of the runtime\<close>

text \<open>
  Source texts, prompts and identifiers are \<open>string\<close>s. The characters of the model are
  the ASCII ones: case mapping and white space are those of ASCII, and a character
  outside ASCII has neither.

  \<open>jsval\<close> is what \<open>JSON.parse\<close> returns and what a property read yields; an object
  is the list of its entries, read by its first entry for a key.
\<close>

datatype jsval =
    Undefined
  | Null
  | Bool bool
  | Num int
  | Str string
  | Arr "jsval list"
  | Obj "(string \<times> jsval) list"

text \<open>
  What is thrown: an \<open>Error\<close> object with its message, or some other value (the
  handlers of the source report the latter as \<open>Unknown error\<close>).
\<close>

datatype error = Err string | Thrown

text \<open>\<open>error instanceof Error ? error.message : 'Unknown error'\<close>\<close>

fun error_message :: "error \<Rightarrow> string" where
  "error_message (Err m) = m"
| "error_message Thrown = ''Unknown error''"

text \<open>\<open>s.includes(sub)\<close>\<close>

fun str_includes :: "string \<Rightarrow> string \<Rightarrow> bool" where
  "str_includes [] sub = (sub = [])"
| "str_includes (c # cs) sub = (prefix sub (c # cs) \<or> str_includes cs sub)"

text \<open>\<open>s.split(sep)\<close> for a separator of one character. The result is never
  empty, so the first branch of the \<open>case\<close> is never taken.\<close>

fun split_on :: "char \<Rightarrow> string \<Rightarrow> string list" where
  "split_on sep [] = [[]]"
| "split_on sep (c # cs) =
     (if c = sep then [] # split_on sep cs
      else (case split_on sep cs of
              [] \<Rightarrow> [[c]]
            | w # ws \<Rightarrow> (c # w) # ws))"

text \<open>\<open>xs.join(sep)\<close>\<close>

fun join :: "string \<Rightarrow> string list \<Rightarrow> string" where
  "join sep [] = []"
| "join sep [x] = x"
| "join sep (x # y # ys) = x @ sep @ join sep (y # ys)"

text \<open>White space (\<open>\s\<close> of a pattern, and what \<open>trim\<close> strips).\<close>

definition is_space :: "char \<Rightarrow> bool" where
  "is_space c = (c = CHR 0x09 \<or> c = CHR 0x0A \<or> c = CHR 0x0B \<or> c = CHR 0x0C
                 \<or> c = CHR 0x0D \<or> c = CHR 0x20)"

definition trim :: "string \<Rightarrow> string" where
  "trim s = rev (dropWhile is_space (rev (dropWhile is_space s)))"

text \<open>
  The text before and the text after the first occurrence of \<open>pat\<close> in \<open>s\<close>
  (\<open>s.indexOf(pat)\<close>, with \<open>None\<close> for \<open>-1\<close>).
\<close>

fun split_at_first :: "string \<Rightarrow> string \<Rightarrow> (string \<times> string) option" where
  "split_at_first pat [] = (if pat = [] then Some ([], []) else None)"
| "split_at_first pat (c # cs) =
     (if prefix pat (c # cs) then Some ([], drop (length pat) (c # cs))
      else (case split_at_first pat cs of
              None \<Rightarrow> None
            | Some (pre, post) \<Rightarrow> Some (c # pre, post)))"

text \<open>
  The replacement text of \<open>String.prototype.replace\<close> for a string pattern: in the
  template, \<open>$$\<close> is a dollar sign, \<open>$&\<close> the matched text, \<open>$`\<close> the text before the
  match and \<open>$'\<close> the text after it; a string pattern has no groups, so any other
  dollar sign stands for itself.
\<close>

fun substitution :: "string \<Rightarrow> string \<Rightarrow> string \<Rightarrow> string \<Rightarrow> string" where
  "substitution m b a [] = []"
| "substitution m b a [c] = [c]"
| "substitution m b a (c # d # r) =
     (if c = CHR ''$'' \<and> d = CHR ''$'' then CHR ''$'' # substitution m b a r
      else if c = CHR ''$'' \<and> d = CHR ''&'' then m @ substitution m b a r
      else if c = CHR ''$'' \<and> d = CHR 0x60 then b @ substitution m b a r
      else if c = CHR ''$'' \<and> d = CHR 0x27 then a @ substitution m b a r
      else c # substitution m b a (d # r))"

text \<open>\<open>s.replace(pat, template)\<close> for a string pattern: the first occurrence only.\<close>

definition js_replace :: "string \<Rightarrow> string \<Rightarrow> string \<Rightarrow> string" where
  "js_replace s pat template =
     (case split_at_first pat s of
        None \<Rightarrow> s
      | Some (pre, post) \<Rightarrow> pre @ substitution pat pre post template @ post)"

text \<open>\<open>s.toLowerCase()\<close> and \<open>s.toUpperCase()\<close>\<close>

definition lower_char :: "char \<Rightarrow> char" where
  "lower_char c =
     (let n = (of_char c :: nat)
      in if 0x41 \<le> n \<and> n \<le> 0x5A then char_of (n + 0x20) else c)"

definition upper_char :: "char \<Rightarrow> char" where
  "upper_char c =
     (let n = (of_char c :: nat)
      in if 0x61 \<le> n \<and> n \<le> 0x7A then char_of (n - 0x20) else c)"

definition toLowerCase :: "string \<Rightarrow> string" where
  "toLowerCase s = map lower_char s"

definition toUpperCase :: "string \<Rightarrow> string" where
  "toUpperCase s = map upper_char s"

text \<open>
  \<open>s.match(/\{[\s\S]*\}/)\<close> and \<open>s.match(/\[[\s\S]*\]/)\<close>: the text from the first
  opening character to the last closing character after it.
\<close>

definition match_delimited :: "char \<Rightarrow> char \<Rightarrow> string \<Rightarrow> string option" where
  "match_delimited l r s =
     (case dropWhile (\<lambda>x. x \<noteq> l) s of
        [] \<Rightarrow> None
      | _ # t \<Rightarrow>
          (case rev (dropWhile (\<lambda>x. x \<noteq> r) (rev t)) of
             [] \<Rightarrow> None
           | body \<Rightarrow> Some (l # body)))"

text \<open>Truthiness, and \<open>a || b\<close>.\<close>

fun truthy :: "jsval \<Rightarrow> bool" where
  "truthy Undefined = False"
| "truthy Null = False"
| "truthy (Bool b) = b"
| "truthy (Num n) = (n \<noteq> 0)"
| "truthy (Str s) = (s \<noteq> [])"
| "truthy (Arr xs) = True"
| "truthy (Obj kvs) = True"

definition js_or :: "jsval \<Rightarrow> jsval \<Rightarrow> jsval" where
  "js_or a b = (if truthy a then a else b)"

section \<open>The code bundle\<close>

text \<open>
  \<open>GeneratedCode\<close> of the code agent. A dictionary \<open>{ [key: string]: string }\<close> is the
  list of its entries in the order \<open>Object.keys\<close> walks them.
\<close>

type_synonym files = "(string \<times> string) list"

record frontend_code =
  components :: files
  pages :: files
  styles :: files
  fconfig :: jsval

record backend_code =
  routes :: files
  models :: files
  middleware :: files
  bconfig :: jsval

record database_code =
  schema :: string
  migrations :: "string list"
  seeds :: "string list"

record deployment_code =
  dockerfile :: string
  dockerCompose :: string
  vercelConfig :: jsval

record GeneratedCode =
  frontend :: frontend_code
  backend :: backend_code
  database :: database_code
  deployment :: deployment_code

section \<open>Optimizer agent: scores\<close>

text \<open>
  Each score starts at 100; the loop over \<open>Object.values\<close> subtracts the penalties of
  each file; the result is \<open>Math.max(0, score)\<close>.
\<close>

definition performance_penalty :: "string \<Rightarrow> int" where
  "performance_penalty content =
     (if str_includes content ''console.log'' then 5 else 0)
   + (if str_includes content ''useEffect'' \<and> \<not> str_includes content ''[]'' then 10 else 0)
   + (if \<not> str_includes content ''React.memo'' then 5 else 0)"

definition calculatePerformanceScore :: "GeneratedCode \<Rightarrow> int" where
  "calculatePerformanceScore code =
     max 0 (foldl (\<lambda>score content. score - performance_penalty content) 100
              (map snd (components (frontend code))))"

definition security_penalty :: "string \<Rightarrow> int" where
  "security_penalty content =
     (if \<not> str_includes content ''cors'' then 10 else 0)
   + (if \<not> str_includes content ''validate'' then 15 else 0)
   + (if str_includes content ''eval('' then 50 else 0)
   + (if str_includes content ''innerHTML'' then 20 else 0)"

definition calculateSecurityScore :: "GeneratedCode \<Rightarrow> int" where
  "calculateSecurityScore code =
     max 0 (foldl (\<lambda>score content. score - security_penalty content) 100
              (map snd (routes (backend code))))"

definition maintainability_penalty :: "string \<Rightarrow> int" where
  "maintainability_penalty content =
     (if \<not> str_includes content ''interface'' then 10 else 0)
   + (if str_includes content ''any'' then 5 else 0)
   + (if length content > 500 then 5 else 0)"

definition calculateMaintainabilityScore :: "GeneratedCode \<Rightarrow> int" where
  "calculateMaintainabilityScore code =
     max 0 (foldl (\<lambda>score content. score - maintainability_penalty content) 100
              (map snd (components (frontend code))))"

section \<open>Optimizer agent: the performance pass\<close>

text \<open>
  \<open>content.replace(/<img([^>]*)>/g, '<img$1 loading="lazy" />')\<close>: from left to right,
  every \<open><img\<close> followed somewhere by \<open>>\<close> is a match that ends at the first
  \<open>>\<close>; the search goes on after the match.
\<close>

function img_lazy :: "string \<Rightarrow> string" where
  "img_lazy [] = []"
| "img_lazy (c # cs) =
     (if prefix ''<img'' (c # cs) \<and> CHR ''>'' \<in> set (drop 4 (c # cs))
      then ''<img'' @ takeWhile (\<lambda>x. x \<noteq> CHR ''>'') (drop 4 (c # cs))
           @ '' loading=\"lazy\" />''
           @ img_lazy (tl (dropWhile (\<lambda>x. x \<noteq> CHR ''>'') (drop 4 (c # cs))))
      else c # img_lazy cs)"
  by pat_completeness auto
termination
proof (relation "measure length")
  show "wf (measure length)"
    by simp
next
  fix c :: char and cs :: string
  have "length (dropWhile (\<lambda>x. x \<noteq> CHR ''>'') (drop 4 (c # cs))) \<le> length (drop 4 (c # cs))"
    by (rule length_dropWhile_le)
  then show "(tl (dropWhile (\<lambda>x. x \<noteq> CHR ''>'') (drop 4 (c # cs))), c # cs) \<in> measure length"
    by simp
next
  fix c :: char and cs :: string
  show "(cs, c # cs) \<in> measure length"
    by simp
qed

text \<open>
  \<open>line.match(/import\s*{([^}]+)}\s*from/)\<close>: the first group of the leftmost match.
  At a given start the match is determined: \<open>import\<close>, white space, \<open>{\<close>, the
  characters up to the next \<open>}\<close> (at least one), \<open>}\<close>, white space, \<open>from\<close>.
\<close>

definition match_import_at :: "string \<Rightarrow> string option" where
  "match_import_at s =
     (if prefix ''import'' s then
        (case dropWhile is_space (drop 6 s) of
           [] \<Rightarrow> None
         | b # r \<Rightarrow>
             (let names = takeWhile (\<lambda>x. x \<noteq> CHR ''}'') r;
                  rest = dropWhile (\<lambda>x. x \<noteq> CHR ''}'') r
              in if b = CHR ''{'' \<and> names \<noteq> [] \<and> rest \<noteq> []
                    \<and> prefix ''from'' (dropWhile is_space (tl rest))
                 then Some names else None))
      else None)"

fun match_import :: "string \<Rightarrow> string option" where
  "match_import [] = match_import_at []"
| "match_import (c # cs) =
     (case match_import_at (c # cs) of
        Some names \<Rightarrow> Some names
      | None \<Rightarrow> match_import cs)"

text \<open>\<open>importMatch[1].split(',').map(imp => imp.trim())\<close>\<close>

definition import_names :: "string \<Rightarrow> string list" where
  "import_names names = map trim (split_on CHR '','' names)"

text \<open>
  The first loop of \<open>removeUnusedImports\<close>: the set \<open>usedImports\<close>, as the list of
  what is added to it.
\<close>

definition used_imports :: "string \<Rightarrow> string list" where
  "used_imports content =
     concat (map (\<lambda>line.
        (case match_import line of
           None \<Rightarrow> []
         | Some names \<Rightarrow>
             filter (\<lambda>imp. str_includes content imp \<and> \<not> str_includes imp ''*'')
               (import_names names)))
       (split_on CHR 0x0A content))"

text \<open>The function mapped over the lines by the second loop.\<close>

definition rewrite_import_line :: "string list \<Rightarrow> string \<Rightarrow> string" where
  "rewrite_import_line used line =
     (case match_import line of
        None \<Rightarrow> line
      | Some names \<Rightarrow>
          (let imports = import_names names;
               usedImportsInLine = filter (\<lambda>imp. imp \<in> set used) imports
           in if length usedImportsInLine = 0 then []
              else if length usedImportsInLine < length imports
              then js_replace line (''{'' @ names @ ''}'')
                     (''{'' @ join '', '' usedImportsInLine @ ''}'')
              else line))"

definition removeUnusedImports :: "string \<Rightarrow> string" where
  "removeUnusedImports content =
     join [CHR 0x0A]
       (filter (\<lambda>line. trim line \<noteq> [])
          (map (rewrite_import_line (used_imports content)) (split_on CHR 0x0A content)))"

text \<open>
  The body of the loop over the frontend components in \<open>optimizePerformance\<close>: the new
  content of the component \<open>filename\<close>.
\<close>

definition optimize_component :: "string \<Rightarrow> string \<Rightarrow> string" where
  "optimize_component filename content0 =
     (let content1 =
            (if str_includes content0 ''export default'' \<and> \<not> str_includes content0 ''React.memo''
             then js_replace content0 ''export default'' ''export default React.memo('' @ '')''
             else content0);
          content2 =
            (if str_includes content1 ''useState'' \<and> \<not> str_includes content1 ''useMemo''
             then js_replace content1 ''import React'' ''import React, { useMemo, useCallback }''
             else content1);
          content3 =
            (if length content2 > 1000 \<and> \<not> str_includes content2 ''lazy''
             then js_replace content2 ''import React'' ''import React, { lazy, Suspense }''
             else content2);
          content4 = img_lazy content3;
          content5 =
            (if str_includes content4 ''export default'' \<and> length content4 > 2000
             then (let componentName = js_replace (js_replace filename ''.tsx'' []) ''.ts'' []
                   in js_replace content4 (''export default '' @ componentName)
                        (''const '' @ componentName @ '' = lazy(() => import('' @ [CHR 0x27]
                         @ ''./'' @ componentName @ [CHR 0x27] @ ''));'' @ [CHR 0x0A]
                         @ ''export default '' @ componentName))
             else content4)
      in removeUnusedImports content5)"

text \<open>The body of the loop over the backend routes.\<close>

definition optimize_route :: "string \<Rightarrow> string" where
  "optimize_route content0 =
     (let content1 =
            (if str_includes content0 ''res.json'' \<and> \<not> str_includes content0 ''Cache-Control''
             then js_replace content0 ''res.json(''
                    (''res.set(\"Cache-Control\", \"public, max-age=300\");'' @ [CHR 0x0A]
                     @ ''    res.json('')
             else content0);
          content2 =
            (if \<not> str_includes content1 ''compression''
             then js_replace (''import compression from \"compression\";'' @ [CHR 0x0A] @ content1)
                    ''app.use(express.json())''
                    (''app.use(compression());'' @ [CHR 0x0A] @ ''app.use(express.json())'')
             else content1);
          content3 =
            (if \<not> str_includes content2 ''rateLimit''
             then js_replace (''import rateLimit from \"express-rate-limit\";'' @ [CHR 0x0A] @ content2)
                    ''app.use(express.json())''
                    (''app.use(rateLimit({ windowMs: 15 * 60 * 1000, max: 100 }));'' @ [CHR 0x0A]
                     @ ''app.use(express.json())'')
             else content2)
      in content3)"

definition optimizePerformance :: "GeneratedCode \<Rightarrow> GeneratedCode" where
  "optimizePerformance code =
     code\<lparr> frontend := (frontend code)\<lparr> components :=
               map (\<lambda>(filename, content). (filename, optimize_component filename content))
                 (components (frontend code)) \<rparr>,
           backend := (backend code)\<lparr> routes :=
               map (\<lambda>(filename, content). (filename, optimize_route content))
                 (routes (backend code)) \<rparr> \<rparr>"

section \<open>Research agent\<close>

text \<open>
  Numbers that are scores are rationals: the rounding of the floating-point sums is not
  modelled.
\<close>

text \<open>The field \<open>content\<close> of a \<open>ResearchResult\<close> is \<open>snippet\<close> here.\<close>

record ResearchResult =
  url :: string
  title :: string
  snippet :: string
  relevance :: rat
  insights :: "string list"
  codePatterns :: "string list"
  uiPatterns :: "string list"

text \<open>
  A prompt sent to the text-generation client is the template it is built from, with the
  values interpolated into it.
\<close>

datatype research_prompt =
    KeywordPrompt string "jsval option"
  | KnowledgePrompt "string list"
  | AnalysisPrompt "ResearchResult list" string

text \<open>
  An element selected from a result page: the trimmed text of its title, the \<open>href\<close>
  of its link if it has one, and the trimmed text of its snippet.
\<close>

record page_element =
  el_title :: string
  el_href :: "string option"
  el_snippet :: string

text \<open>
  What the research agent reaches outside itself:
  \<^item> \<open>generate\<close>: \<open>llama3LLM.generate\<close>, returning the \<open>content\<close> of the response;
  \<^item> \<open>regexp_new\<close>: \<open>new RegExp(pattern, 'g')\<close>, which fails where the constructor
    rejects the pattern and otherwise gives, for a subject, the number of matches
    \<open>(subject.match(re) || []).length\<close>;
  \<^item> \<open>http_get\<close>: \<open>axios.get\<close>, returning the body; \<open>encodeURIComponent\<close>;
  \<^item> \<open>primary_elements\<close> and \<open>generic_elements\<close>: the elements that the selectors of
    \<open>searchWeb\<close> and of \<open>searchWithAlternativeEngines\<close> find in a page;
  \<^item> \<open>extractInsights\<close>, \<open>extractCodePatterns\<close>, \<open>extractUIPatterns\<close>: the pattern scans
    of a snippet, which do not fail;
  \<^item> \<open>cache_file\<close>: the content of \<open>research-cache.json\<close>, \<open>None\<close> where the file does
    not exist, an error where it cannot be read;
  \<^item> \<open>JSON.parse\<close>, by the type its result is declared to have at each use:
    \<open>parse_keywords\<close>, \<open>parse_results\<close>, \<open>parse_cache\<close> (the entries of the cache in
    the order of \<open>Object.entries\<close>), and \<open>parse_json\<close> for the analysis, whose object is
    returned as it is.
  The source passes on whatever \<open>JSON.parse\<close> gave for the cache and for the knowledge
  response. A value that is not a list of results as declared is outside the model:
  where such a value is not empty, \<open>searchWeb\<close> in the source can fail at the spread or
  in the sort, which the model does not show.
\<close>

record research_env =
  generate :: "research_prompt \<Rightarrow> error + string"
  regexp_new :: "string \<Rightarrow> error + (string \<Rightarrow> nat)"
  http_get :: "string \<Rightarrow> error + string"
  encodeURIComponent :: "string \<Rightarrow> string"
  primary_elements :: "string \<Rightarrow> page_element list"
  generic_elements :: "string \<Rightarrow> page_element list"
  extractInsights :: "string \<Rightarrow> string list"
  extractCodePatterns :: "string \<Rightarrow> string list"
  extractUIPatterns :: "string \<Rightarrow> string list"
  cache_file :: "(error + string) option"
  parse_keywords :: "string \<Rightarrow> error + string list"
  parse_results :: "string \<Rightarrow> error + ResearchResult list"
  parse_cache :: "string \<Rightarrow> error + (string \<times> ResearchResult list) list"
  parse_json :: "string \<Rightarrow> error + jsval"

type_synonym regexp_engine = "string \<Rightarrow> error + (string \<Rightarrow> nat)"

text \<open>The loop of \<open>calculateRelevance\<close> over the keywords, with the score so far.\<close>

fun relevance_score :: "regexp_engine \<Rightarrow> string \<Rightarrow> string list \<Rightarrow> rat \<Rightarrow> error + rat" where
  "relevance_score engine contentLower [] score = Inr score"
| "relevance_score engine contentLower (keyword # keywords) score =
     (case engine (toLowerCase keyword) of
        Inl e \<Rightarrow> Inl e
      | Inr count_matches \<Rightarrow>
          relevance_score engine contentLower keywords
            (score + of_nat (count_matches contentLower) * (1 / 10)))"

definition calculateRelevance :: "regexp_engine \<Rightarrow> string \<Rightarrow> string list \<Rightarrow> error + rat" where
  "calculateRelevance engine content keywords =
     (case relevance_score engine (toLowerCase content) keywords 0 of
        Inl e \<Rightarrow> Inl e
      | Inr score \<Rightarrow> Inr (min score 1))"

text \<open>
  The callback of \<open>each\<close> over the selected elements, with the array \<open>results\<close> so
  far: an element with a title, a link and a snippet is pushed as a result. A failure
  ends the loop and leaves what was pushed before it.
\<close>

fun collect_results ::
  "research_env \<Rightarrow> string list \<Rightarrow> page_element list \<Rightarrow> ResearchResult list
     \<Rightarrow> ResearchResult list \<times> error option" where
  "collect_results env keywords [] results = (results, None)"
| "collect_results env keywords (el # els) results =
     (case el_href el of
        None \<Rightarrow> collect_results env keywords els results
      | Some href \<Rightarrow>
          if el_title el \<noteq> [] \<and> href \<noteq> [] \<and> el_snippet el \<noteq> [] then
            (case calculateRelevance (regexp_new env) (el_snippet el) keywords of
               Inl e \<Rightarrow> (results, Some e)
             | Inr rel \<Rightarrow>
                 collect_results env keywords els
                   (results @
                    [\<lparr> url = (if prefix ''//'' href then ''https:'' @ href else href),
                       title = el_title el,
                       snippet = el_snippet el,
                       relevance = rel,
                       insights = extractInsights env (el_snippet el),
                       codePatterns = extractCodePatterns env (el_snippet el),
                       uiPatterns = extractUIPatterns env (el_snippet el) \<rparr>]))
          else collect_results env keywords els results)"

text \<open>
  One engine of \<open>searchWithAlternativeEngines\<close>, and the body of the \<open>try\<close> of
  \<open>searchWeb\<close> up to the results of the primary provider: the page is fetched and at
  most five elements are read. Both give the array \<open>results\<close> and the failure, if any.
\<close>

definition engine_search ::
  "research_env \<Rightarrow> string \<Rightarrow> string list \<Rightarrow> ResearchResult list \<times> error option" where
  "engine_search env engine keywords =
     (case http_get env (engine @ encodeURIComponent env (join '' '' keywords)) of
        Inl e \<Rightarrow> ([], Some e)
      | Inr page \<Rightarrow> collect_results env keywords (take 5 (generic_elements env page)) [])"

definition primary_search ::
  "research_env \<Rightarrow> string list \<Rightarrow> ResearchResult list \<times> error option" where
  "primary_search env keywords =
     (case http_get env (''https://html.duckduckgo.com/html/?q=''
                          @ encodeURIComponent env (join '' '' keywords)) of
        Inl e \<Rightarrow> ([], Some e)
      | Inr page \<Rightarrow> collect_results env keywords (take 5 (primary_elements env page)) [])"

text \<open>The loop over the engines: a failing engine is skipped.\<close>

fun try_engines :: "research_env \<Rightarrow> string list \<Rightarrow> string list \<Rightarrow> ResearchResult list" where
  "try_engines env keywords [] = []"
| "try_engines env keywords (engine # engines) =
     (case engine_search env engine keywords of
        (results, Some e) \<Rightarrow> try_engines env keywords engines
      | (results, None) \<Rightarrow>
          if length results > 0 then results else try_engines env keywords engines)"

definition searchWithAlternativeEngines :: "research_env \<Rightarrow> string list \<Rightarrow> ResearchResult list" where
  "searchWithAlternativeEngines env keywords =
     try_engines env keywords
       [''https://www.startpage.com/sp/search?query='',
        ''https://search.yahoo.com/search?p='',
        ''https://www.ecosia.org/search?q='']"

text \<open>\<open>calculateQuerySimilarity\<close>: the sets of words are lists without duplicates.\<close>

definition calculateQuerySimilarity :: "string \<Rightarrow> string \<Rightarrow> rat" where
  "calculateQuerySimilarity query1 query2 =
     (let words1 = remdups (split_on CHR '' '' query1);
          words2 = remdups (split_on CHR '' '' query2);
          intersection = filter (\<lambda>x. x \<in> set words2) words1;
          union = remdups (words1 @ words2)
      in of_nat (length intersection) / of_nat (length union))"

text \<open>The loop over the entries of the cache.\<close>

fun find_similar :: "string \<Rightarrow> (string \<times> ResearchResult list) list \<Rightarrow> ResearchResult list" where
  "find_similar query [] = []"
| "find_similar query ((cachedQuery, results) # entries) =
     (if calculateQuerySimilarity query cachedQuery > 7 / 10 then results
      else find_similar query entries)"

definition searchWithCachedResults :: "research_env \<Rightarrow> string list \<Rightarrow> ResearchResult list" where
  "searchWithCachedResults env keywords =
     (case cache_file env of
        None \<Rightarrow> []
      | Some (Inl e) \<Rightarrow> []
      | Some (Inr text) \<Rightarrow>
          (case parse_cache env text of
             Inl e \<Rightarrow> []
           | Inr cache \<Rightarrow> find_similar (toLowerCase (join '' '' keywords)) cache))"

definition searchWithAIKnowledge :: "research_env \<Rightarrow> string list \<Rightarrow> ResearchResult list" where
  "searchWithAIKnowledge env keywords =
     (case generate env (KnowledgePrompt keywords) of
        Inl e \<Rightarrow> []
      | Inr response \<Rightarrow>
          (case match_delimited CHR ''['' CHR '']'' response of
             None \<Rightarrow> []
           | Some json \<Rightarrow>
               (case parse_results env json of
                  Inl e \<Rightarrow> []
                | Inr results \<Rightarrow> results)))"

text \<open>
  \<open>fallbackSearch\<close>: the strategies in their order, up to the first that yields a
  result. In the model a strategy returns a list and handles its own failures, so the
  handler around each strategy has nothing to catch.
\<close>

definition fallbackSearch :: "research_env \<Rightarrow> string list \<Rightarrow> ResearchResult list" where
  "fallbackSearch env keywords =
     (if length (searchWithAlternativeEngines env keywords) > 0
      then searchWithAlternativeEngines env keywords
      else if length (searchWithCachedResults env keywords) > 0
      then searchWithCachedResults env keywords
      else if length (searchWithAIKnowledge env keywords) > 0
      then searchWithAIKnowledge env keywords
      else [])"

text \<open>\<open>results.sort((a, b) => b.relevance - a.relevance)\<close>: stable, highest first.\<close>

definition sort_by_relevance :: "ResearchResult list \<Rightarrow> ResearchResult list" where
  "sort_by_relevance results = sort_key (\<lambda>r. - relevance r) results"

text \<open>
  \<open>searchWeb\<close>: the results of the fallback are pushed after those of the primary
  provider, when it failed and when it found nothing.
\<close>

definition searchWeb :: "research_env \<Rightarrow> string list \<Rightarrow> ResearchResult list" where
  "searchWeb env keywords =
     sort_by_relevance
       (case primary_search env keywords of
          (results, Some e) \<Rightarrow> results @ fallbackSearch env keywords
        | (results, None) \<Rightarrow>
            if length results = 0 then results @ fallbackSearch env keywords else results)"

text \<open>\<open>extractKeywords\<close>: the call, and what follows it once the response is there.\<close>

definition keywords_of_response :: "research_env \<Rightarrow> string \<Rightarrow> string \<Rightarrow> string list" where
  "keywords_of_response env prompt response =
     (let fallback = take 5 (filter (\<lambda>word. length word > 3)
                               (split_on CHR '' '' (toLowerCase prompt)))
      in case match_delimited CHR ''['' CHR '']'' response of
           None \<Rightarrow> fallback
         | Some json \<Rightarrow>
             (case parse_keywords env json of
                Inl e \<Rightarrow> fallback
              | Inr keywords \<Rightarrow> keywords))"

definition extractKeywords :: "research_env \<Rightarrow> string \<Rightarrow> jsval option \<Rightarrow> error + string list" where
  "extractKeywords env prompt plan =
     (case generate env (KeywordPrompt prompt plan) of
        Inl e \<Rightarrow> Inl e
      | Inr response \<Rightarrow> Inr (keywords_of_response env prompt response))"

definition fallback_summary :: jsval where
  "fallback_summary =
     Obj [(''overallInsights'', Arr [Str ''Research completed successfully'']),
          (''recommendedTechStack'', Arr [Str ''React'', Str ''TypeScript'', Str ''Tailwind CSS'']),
          (''designPatterns'', Arr [Str ''Component-based architecture'', Str ''Responsive design'']),
          (''codeExamples'', Arr [Str ''Modern React patterns'', Str ''TypeScript interfaces'']),
          (''bestPractices'', Arr [Str ''Code organization'', Str ''Error handling'']),
          (''potentialIssues'', Arr [Str ''Performance optimization'', Str ''Accessibility''])]"

text \<open>\<open>analyzeResults\<close>: the call, and what follows it once the response is there.\<close>

definition summary_of_response :: "research_env \<Rightarrow> string \<Rightarrow> jsval" where
  "summary_of_response env response =
     (case match_delimited CHR ''{'' CHR ''}'' response of
        None \<Rightarrow> fallback_summary
      | Some json \<Rightarrow>
          (case parse_json env json of
             Inl e \<Rightarrow> fallback_summary
           | Inr summary \<Rightarrow> summary))"

definition analyzeResults :: "research_env \<Rightarrow> ResearchResult list \<Rightarrow> string \<Rightarrow> error + jsval" where
  "analyzeResults env results originalPrompt =
     (case generate env (AnalysisPrompt results originalPrompt) of
        Inl e \<Rightarrow> Inl e
      | Inr response \<Rightarrow> Inr (summary_of_response env response))"

definition researchApp :: "research_env \<Rightarrow> string \<Rightarrow> jsval option \<Rightarrow> error + jsval" where
  "researchApp env prompt plan =
     (case extractKeywords env prompt plan of
        Inl e \<Rightarrow> Inl e
      | Inr keywords \<Rightarrow> analyzeResults env (searchWeb env keywords) prompt)"

text \<open>Whether a value has the six fields of a \<open>ResearchSummary\<close>.\<close>

definition summary_fields :: "string list" where
  "summary_fields = [''overallInsights'', ''recommendedTechStack'', ''designPatterns'',
                     ''codeExamples'', ''bestPractices'', ''potentialIssues'']"

fun has_summary_fields :: "jsval \<Rightarrow> bool" where
  "has_summary_fields (Obj kvs) = list_all (\<lambda>k. k \<in> set (map fst kvs)) summary_fields"
| "has_summary_fields v = False"

section \<open>Planner agent\<close>

text \<open>
  A plan is the object that \<open>parsePlan\<close> builds. A property read \<open>v.k\<close> fails on
  \<open>undefined\<close> and \<open>null\<close>; \<open>v?.k\<close> gives \<open>undefined\<close> there. The names read by the
  agents are no members of a prototype, so a value that is not an object has none of
  them.
\<close>

fun get_prop :: "jsval \<Rightarrow> string \<Rightarrow> error + jsval" where
  "get_prop Undefined k = Inl (Err ''Cannot read properties of undefined'')"
| "get_prop Null k = Inl (Err ''Cannot read properties of null'')"
| "get_prop (Obj kvs) k = Inr (case map_of kvs k of None \<Rightarrow> Undefined | Some v \<Rightarrow> v)"
| "get_prop v k = Inr Undefined"

fun opt_prop :: "jsval \<Rightarrow> string \<Rightarrow> jsval" where
  "opt_prop (Obj kvs) k = (case map_of kvs k of None \<Rightarrow> Undefined | Some v \<Rightarrow> v)"
| "opt_prop v k = Undefined"

text \<open>\<open>word.charAt(0).toUpperCase() + word.slice(1)\<close>\<close>

definition capitalize :: "string \<Rightarrow> string" where
  "capitalize word = toUpperCase (take 1 word) @ drop 1 word"

text \<open>\<open>generateAppName\<close>: a prompt that is no string has no \<open>toLowerCase\<close>.\<close>

fun generateAppName :: "jsval \<Rightarrow> error + string" where
  "generateAppName (Str prompt) =
     Inr (join '' '' (map capitalize
            (take 2 (filter (\<lambda>word. length word > 3)
                       (split_on CHR '' '' (toLowerCase prompt)))))
          @ '' App'')"
| "generateAppName v = Inl (Err ''prompt.toLowerCase is not a function'')"

text \<open>
  The fallback plan under a given name: the literal of \<open>createFallbackPlan\<close>, which
  the handler of \<open>parsePlan\<close> repeats.
\<close>

definition fallback_plan :: "string \<Rightarrow> jsval" where
  "fallback_plan name =
     Obj [(''name'', Str name),
          (''description'', Str ''AI-generated app based on your request''),
          (''features'', Arr [Str ''User interface'', Str ''Data management'', Str ''Responsive design'']),
          (''techStack'',
             Obj [(''frontend'', Str ''React + TypeScript + Tailwind CSS''),
                  (''backend'', Str ''Node.js + Express''),
                  (''database'', Str ''PostgreSQL''),
                  (''deployment'', Str ''Vercel'')]),
          (''structure'',
             Obj [(''pages'', Arr [Str ''Home'', Str ''Dashboard'']),
                  (''components'', Arr [Str ''Header'', Str ''Main'', Str ''Footer'']),
                  (''api'', Arr [Str ''/api/data''])]),
          (''timeline'', Str ''1-2 days''),
          (''complexity'', Str ''simple'')]"

definition createFallbackPlan :: "jsval \<Rightarrow> error + jsval" where
  "createFallbackPlan prompt =
     (case generateAppName prompt of
        Inl e \<Rightarrow> Inl e
      | Inr name \<Rightarrow> Inr (fallback_plan name))"

text \<open>
  The object returned inside the \<open>try\<close> of \<open>parsePlan\<close>. Its first property read,
  \<open>planData.name\<close>, fails where \<open>planData\<close> has no properties; the later reads of
  \<open>planData\<close> then cannot fail.
\<close>

definition plan_from_data :: "jsval \<Rightarrow> jsval \<Rightarrow> error + jsval" where
  "plan_from_data planData originalPrompt =
     (case get_prop planData ''name'' of
        Inl e \<Rightarrow> Inl e
      | Inr given \<Rightarrow>
          (case (if truthy given then Inr given
                 else (case generateAppName originalPrompt of
                         Inl e \<Rightarrow> Inl e
                       | Inr name \<Rightarrow> Inr (Str name))) of
             Inl e \<Rightarrow> Inl e
           | Inr name \<Rightarrow>
               Inr (Obj
                 [(''name'', name),
                  (''description'', js_or (opt_prop planData ''description'') (Str ''AI-generated app'')),
                  (''features'', js_or (opt_prop planData ''features'') (Arr [])),
                  (''techStack'',
                     Obj [(''frontend'', js_or (opt_prop (opt_prop planData ''techStack'') ''frontend'')
                                           (Str ''React + TypeScript'')),
                          (''backend'', js_or (opt_prop (opt_prop planData ''techStack'') ''backend'')
                                          (Str ''Node.js + Express'')),
                          (''database'', js_or (opt_prop (opt_prop planData ''techStack'') ''database'')
                                           (Str ''PostgreSQL'')),
                          (''deployment'', js_or (opt_prop (opt_prop planData ''techStack'') ''deployment'')
                                             (Str ''Vercel''))]),
                  (''structure'',
                     Obj [(''pages'', js_or (opt_prop (opt_prop planData ''structure'') ''pages'')
                                        (Arr [Str ''Home''])),
                          (''components'', js_or (opt_prop (opt_prop planData ''structure'') ''components'')
                                             (Arr [Str ''App''])),
                          (''api'', js_or (opt_prop (opt_prop planData ''structure'') ''api'') (Arr []))]),
                  (''timeline'', js_or (opt_prop planData ''timeline'') (Str ''1-2 days'')),
                  (''complexity'', js_or (opt_prop planData ''complexity'') (Str ''simple''))])))"

text \<open>
  \<open>parsePlan\<close>, given \<open>JSON.parse\<close>: whatever fails inside the \<open>try\<close> leads to the
  fallback plan, named after \<open>originalPrompt\<close>.
\<close>

definition parsePlan :: "(string \<Rightarrow> error + jsval) \<Rightarrow> string \<Rightarrow> jsval \<Rightarrow> error + jsval" where
  "parsePlan parse planContent originalPrompt =
     (case (case match_delimited CHR ''{'' CHR ''}'' planContent of
              None \<Rightarrow> Inl (Err ''No JSON found in plan response'')
            | Some json \<Rightarrow>
                (case parse json of
                   Inl e \<Rightarrow> Inl e
                 | Inr planData \<Rightarrow> plan_from_data planData originalPrompt)) of
        Inr plan \<Rightarrow> Inr plan
      | Inl e \<Rightarrow>
          (case generateAppName originalPrompt of
             Inl e' \<Rightarrow> Inl e'
           | Inr name \<Rightarrow> Inr (fallback_plan name)))"

text \<open>
  What the planner reaches outside itself: \<open>getModelClient\<close>, the \<open>generateText\<close> of
  the client it gives, and \<open>JSON.parse\<close>. A prompt is its template with the values
  interpolated into it.
\<close>

datatype planner_prompt =
    AppAnalysisPrompt jsval
  | PlanningPrompt jsval string "jsval option"
  | RefinementPrompt jsval string

record text_request =
  request_prompt :: planner_prompt
  maxTokens :: nat
  temperature :: rat

record planner_env =
  getModelClient :: "error + unit"
  generateText :: "text_request \<Rightarrow> error + string"
  JSON_parse :: "string \<Rightarrow> error + jsval"

text \<open>\<open>refinePlan\<close>: whatever fails inside its \<open>try\<close> gives the plan back.\<close>

definition refinePlan :: "planner_env \<Rightarrow> jsval \<Rightarrow> string \<Rightarrow> error + jsval" where
  "refinePlan env plan feedback =
     (case getModelClient env of
        Inl e \<Rightarrow> Inr plan
      | Inr modelClient \<Rightarrow>
          (case generateText env \<lparr> request_prompt = RefinementPrompt plan feedback,
                                   maxTokens = 2000, temperature = 1 / 2 \<rparr> of
             Inl e \<Rightarrow> Inr plan
           | Inr text \<Rightarrow>
               (case get_prop plan ''name'' of
                  Inl e \<Rightarrow> Inr plan
                | Inr name \<Rightarrow>
                    (case parsePlan (JSON_parse env) text name of
                       Inl e \<Rightarrow> Inr plan
                     | Inr refinedPlan \<Rightarrow> Inr refinedPlan))))"

section \<open>Deploy agent\<close>

record DeploymentConfig =
  cfg_platform :: string
  cfg_environment :: string
  cfg_domain :: "string option"
  cfg_customDomain :: "string option"
  cfg_url :: "string option"

record DeploymentResult =
  dep_success :: bool
  dep_url :: "string option"
  dep_deploymentId :: "string option"
  dep_logs :: "string list"
  dep_errors :: "string list"

datatype deploy_status = Building | Ready | Failed

text \<open>
  The result of a status check; the status \<open>'error'\<close> is \<open>Failed\<close>. What a provider
  reports about a deployment: its state, its address, its log.
\<close>

record status_result =
  status :: deploy_status
  status_url :: "string option"
  status_logs :: "string list"

record provider_report =
  report_state :: string
  report_url :: "string option"
  report_logs :: "string list option"

text \<open>
  What the deploy agent reaches outside itself:
  \<^item> the tokens of the constructor and of the process environment, and the region;
  \<^item> \<open>configuration_files\<close>: the entries \<open>package.json\<close>, \<open>vercel.json\<close>,
    \<open>next.config.js\<close>, \<open>tsconfig.json\<close> and \<open>.env.local\<close> that
    \<open>prepareDeploymentFiles\<close> generates, whose texts are not modelled;
  \<^item> \<open>vercel_upload\<close>, \<open>netlify_upload\<close>, \<open>railway_upload\<close>, \<open>aws_upload\<close>: what each
    \<open>deployTo\<close> function does inside its \<open>try\<close>, giving the address;
  \<^item> the requests of the status checks: \<open>vercel_deployment\<close>, \<open>netlify_site\<close>,
    \<open>railway_deployment\<close>;
  \<^item> the requests of the rollbacks: \<open>vercel_project\<close> (the \<open>projectId\<close> of a
    deployment), \<open>vercel_deployments\<close> (the \<open>uid\<close>s of the two latest deployments of
    a project), \<open>vercel_promote\<close>; \<open>netlify_deploys\<close> (the ids of the deploys of a
    site), \<open>netlify_restore\<close>; \<open>railway_deployments\<close> (the ids of the two latest
    deployments), \<open>railway_rollback\<close>.
  A request gives what the agent reads from the response; it fails where the request
  fails and where the response does not hold what is read.
\<close>

record deploy_env =
  vercelToken :: "string option"
  netlifyToken :: "string option"
  railwayToken :: "string option"
  awsAccessKeyId :: "string option"
  awsSecretAccessKey :: "string option"
  awsRegion :: "string option"
  configuration_files :: "GeneratedCode \<Rightarrow> DeploymentConfig \<Rightarrow> files"
  vercel_upload :: "files \<Rightarrow> error + string"
  netlify_upload :: "files \<Rightarrow> error + string"
  railway_upload :: "files \<Rightarrow> error + string"
  aws_upload :: "files \<Rightarrow> string \<Rightarrow> error + string"
  vercel_deployment :: "string \<Rightarrow> error + provider_report"
  netlify_site :: "string \<Rightarrow> error + provider_report"
  railway_deployment :: "string \<Rightarrow> error + provider_report"
  vercel_project :: "string \<Rightarrow> error + string"
  vercel_deployments :: "string \<Rightarrow> error + string list"
  vercel_promote :: "string \<Rightarrow> error + unit"
  netlify_deploys :: "string \<Rightarrow> error + string list"
  netlify_restore :: "string \<Rightarrow> error + unit"
  railway_deployments :: "error + string list"
  railway_rollback :: "string \<Rightarrow> error + unit"

text \<open>\<open>!token\<close>: the token is missing or empty.\<close>

fun missing :: "string option \<Rightarrow> bool" where
  "missing None = True"
| "missing (Some t) = (t = [])"

text \<open>\<open>files[key] = value\<close>\<close>

fun assign :: "files \<Rightarrow> string \<Rightarrow> string \<Rightarrow> files" where
  "assign [] key v = [(key, v)]"
| "assign ((k, w) # rest) key v =
     (if k = key then (k, v) # rest else (k, w) # assign rest key v)"

definition assign_all :: "string \<Rightarrow> files \<Rightarrow> files \<Rightarrow> files" where
  "assign_all dir entries fs = foldl (\<lambda>acc (name, text). assign acc (dir @ name) text) fs entries"

definition prepareDeploymentFiles :: "deploy_env \<Rightarrow> GeneratedCode \<Rightarrow> DeploymentConfig \<Rightarrow> files" where
  "prepareDeploymentFiles env code config =
     assign_all [] (configuration_files env code config)
       (assign_all ''api/'' (routes (backend code))
          (assign_all ''src/styles/'' (styles (frontend code))
             (assign_all ''src/pages/'' (pages (frontend code))
                (assign_all ''src/components/'' (components (frontend code)) []))))"

definition deployToVercel :: "deploy_env \<Rightarrow> files \<Rightarrow> error + string" where
  "deployToVercel env fs =
     (if missing (vercelToken env) then Inl (Err ''Vercel token not provided'')
      else (case vercel_upload env fs of
              Inl e \<Rightarrow> Inl (Err (''Vercel deployment failed: '' @ error_message e))
            | Inr address \<Rightarrow> Inr address))"

definition deployToNetlify :: "deploy_env \<Rightarrow> files \<Rightarrow> error + string" where
  "deployToNetlify env fs =
     (if missing (netlifyToken env) then Inl (Err ''Netlify token not provided'')
      else (case netlify_upload env fs of
              Inl e \<Rightarrow> Inl (Err (''Netlify deployment failed: '' @ error_message e))
            | Inr address \<Rightarrow> Inr address))"

definition deployToRailway :: "deploy_env \<Rightarrow> files \<Rightarrow> error + string" where
  "deployToRailway env fs =
     (if missing (railwayToken env)
      then Inl (Err ''Railway token not provided. Set RAILWAY_TOKEN environment variable.'')
      else (case railway_upload env fs of
              Inl e \<Rightarrow> Inl (Err (''Railway deployment failed: '' @ error_message e))
            | Inr address \<Rightarrow> Inr address))"

definition deployToAWS :: "deploy_env \<Rightarrow> files \<Rightarrow> error + string" where
  "deployToAWS env fs =
     (let region = (case awsRegion env of
                      None \<Rightarrow> ''us-east-1''
                    | Some r \<Rightarrow> if r = [] then ''us-east-1'' else r)
      in if missing (awsAccessKeyId env) \<or> missing (awsSecretAccessKey env)
         then Inl (Err (''AWS credentials not provided. Set AWS_ACCESS_KEY_ID and ''
                        @ ''AWS_SECRET_ACCESS_KEY environment variables.''))
         else (case aws_upload env fs region of
                 Inl e \<Rightarrow> Inl (Err (''AWS deployment failed: '' @ error_message e))
               | Inr address \<Rightarrow> Inr address))"

text \<open>\<open>deployApp\<close>: a failure inside the \<open>try\<close> is recorded in \<open>errors\<close>.\<close>

definition deployApp :: "deploy_env \<Rightarrow> GeneratedCode \<Rightarrow> DeploymentConfig \<Rightarrow> error + DeploymentResult" where
  "deployApp env code config =
     (let deploymentFiles = prepareDeploymentFiles env code config;
          platform = cfg_platform config
      in case (if platform = ''vercel'' then deployToVercel env deploymentFiles
               else if platform = ''netlify'' then deployToNetlify env deploymentFiles
               else if platform = ''railway'' then deployToRailway env deploymentFiles
               else if platform = ''aws'' then deployToAWS env deploymentFiles
               else Inl (Err (''Unsupported platform: '' @ platform))) of
           Inr address \<Rightarrow>
             Inr \<lparr> dep_success = True, dep_url = Some address, dep_deploymentId = None,
                   dep_logs = [''Successfully deployed to '' @ platform], dep_errors = [] \<rparr>
         | Inl e \<Rightarrow>
             Inr \<lparr> dep_success = False, dep_url = None, dep_deploymentId = None,
                   dep_logs = [], dep_errors = [error_message e] \<rparr>)"

text \<open>
  The status checks. A report is read as \<open>ready\<close>, \<open>error\<close> or \<open>building\<close> by the
  two words of the provider.
\<close>

definition read_report :: "string \<Rightarrow> string \<Rightarrow> provider_report \<Rightarrow> status_result" where
  "read_report ready failed report =
     \<lparr> status = (if report_state report = ready then Ready
                  else if report_state report = failed then Failed else Building),
       status_url = report_url report,
       status_logs = (case report_logs report of
                        None \<Rightarrow> [''No logs available'']
                      | Some ls \<Rightarrow> ls) \<rparr>"

definition checkVercelStatus :: "deploy_env \<Rightarrow> string \<Rightarrow> error + status_result" where
  "checkVercelStatus env deploymentId =
     (if missing (vercelToken env) then Inl (Err ''Vercel token not provided'')
      else (case vercel_deployment env deploymentId of
              Inl e \<Rightarrow> Inl e
            | Inr report \<Rightarrow> Inr (read_report ''READY'' ''ERROR'' report)))"

definition checkNetlifyStatus :: "deploy_env \<Rightarrow> string \<Rightarrow> error + status_result" where
  "checkNetlifyStatus env siteId =
     (if missing (netlifyToken env) then Inl (Err ''Netlify token not provided'')
      else (case netlify_site env siteId of
              Inl e \<Rightarrow> Inl e
            | Inr report \<Rightarrow> Inr (read_report ''ready'' ''error'' report)))"

definition checkRailwayStatus :: "deploy_env \<Rightarrow> string \<Rightarrow> error + status_result" where
  "checkRailwayStatus env deploymentId =
     (if missing (railwayToken env) then Inl (Err ''Railway token not provided'')
      else (case railway_deployment env deploymentId of
              Inl e \<Rightarrow> Inl e
            | Inr report \<Rightarrow> Inr (read_report ''SUCCESS'' ''FAILED'' report)))"

definition checkAWSStatus :: "string \<Rightarrow> error + status_result" where
  "checkAWSStatus bucketName =
     Inr \<lparr> status = Ready,
           status_url = Some (''https://'' @ bucketName @ ''.s3-website-us-east-1.amazonaws.com''),
           status_logs = [''AWS S3 deployment completed successfully''] \<rparr>"

text \<open>The \<open>switch\<close> inside the \<open>try\<close> of \<open>checkDeploymentStatus\<close>, and the method.\<close>

definition status_switch :: "deploy_env \<Rightarrow> string \<Rightarrow> string \<Rightarrow> error + status_result" where
  "status_switch env deploymentId platform =
     (if platform = ''vercel'' then checkVercelStatus env deploymentId
      else if platform = ''netlify'' then checkNetlifyStatus env deploymentId
      else if platform = ''railway'' then checkRailwayStatus env deploymentId
      else if platform = ''aws'' then checkAWSStatus deploymentId
      else Inl (Err (''Unsupported platform: '' @ platform)))"

definition checkDeploymentStatus :: "deploy_env \<Rightarrow> string \<Rightarrow> string \<Rightarrow> error + status_result" where
  "checkDeploymentStatus env deploymentId platform =
     (case status_switch env deploymentId platform of
        Inr result \<Rightarrow> Inr result
      | Inl e \<Rightarrow>
          Inr \<lparr> status = Failed, status_url = None,
                status_logs = [''Status check failed: '' @ error_message e] \<rparr>)"










section \<open>Orchestrator\<close>

record OptimizationResult =
  opt_success :: bool
  optimizedCode :: GeneratedCode
  improvements :: "string list"
  issues :: "string list"
  performanceScore :: int
  securityScore :: int
  maintainabilityScore :: int

record AppGenerationRequest =
  prompt :: string
  platform :: string
  features :: "string list"
  style :: string
  targetAudience :: string

text \<open>
  \<open>AppGenerationResult\<close>: a field that is \<open>null\<close> or absent is \<open>None\<close>.
\<close>

record AppGenerationResult =
  success :: bool
  appId :: string
  deploymentUrl :: "string option"
  code :: "GeneratedCode option"
  research :: "jsval option"
  optimization :: "OptimizationResult option"
  errors :: "string list"
  logs :: "string list"

text \<open>
  The agents of the orchestrator, each as what its call gives, and the clock. The
  orchestrator only passes the plan on, so its type is left open.
\<close>

record 'plan agents =
  researchAgent :: "string \<Rightarrow> error + jsval"
  plannerAgent :: "AppGenerationRequest \<Rightarrow> jsval \<Rightarrow> error + 'plan"
  codeAgent :: "'plan \<Rightarrow> AppGenerationRequest \<Rightarrow> error + GeneratedCode"
  optimizerAgent :: "GeneratedCode \<Rightarrow> error + OptimizationResult"
  deployAgent :: "GeneratedCode \<Rightarrow> DeploymentConfig \<Rightarrow> error + DeploymentResult"
  now :: nat

text \<open>The decimal digits of a number, for \<open>Date.now()\<close> in a template.\<close>

function show_nat :: "nat \<Rightarrow> string" where
  "show_nat n =
     (if n < 10 then [char_of (48 + n)]
      else show_nat (n div 10) @ [char_of (48 + n mod 10)])"
  by pat_completeness auto
termination
  by (relation "measure id") auto

text \<open>The two signs that open the log lines, as the bytes of their UTF-8 encoding.\<close>

definition check_mark :: string where
  "check_mark = [CHR 0xE2, CHR 0x9C, CHR 0x85]"

definition cross_mark :: string where
  "cross_mark = [CHR 0xE2, CHR 0x9D, CHR 0x8C]"

text \<open>The handler of \<open>generateApp\<close>, applied to the result as it is when a stage fails.\<close>

definition failed_run :: "AppGenerationResult \<Rightarrow> error \<Rightarrow> AppGenerationResult" where
  "failed_run result e =
     result\<lparr> errors := errors result @ [error_message e],
             logs := logs result @ [cross_mark @ '' Error: '' @ error_message e] \<rparr>"

definition log_line :: "AppGenerationResult \<Rightarrow> string \<Rightarrow> AppGenerationResult" where
  "log_line result line = result\<lparr> logs := logs result @ [line] \<rparr>"

definition generateApp :: "'plan agents \<Rightarrow> AppGenerationRequest \<Rightarrow> AppGenerationResult" where
  "generateApp agents request =
     (let result0 = \<lparr> success = False, appId = ''voxlor-'' @ show_nat (now agents),
                       deploymentUrl = None, code = None, research = None,
                       optimization = None, errors = [], logs = [] \<rparr>
      in case researchAgent agents (prompt request) of
           Inl e \<Rightarrow> failed_run result0 e
         | Inr found \<Rightarrow>
        (let result1 = log_line (result0\<lparr> research := Some found \<rparr>)
                         (check_mark @ '' Research completed'')
         in case plannerAgent agents request found of
              Inl e \<Rightarrow> failed_run result1 e
            | Inr plan \<Rightarrow>
        (let result2 = log_line result1 (check_mark @ '' App structure planned'')
         in case codeAgent agents plan request of
              Inl e \<Rightarrow> failed_run result2 e
            | Inr generated \<Rightarrow>
        (let result3 = log_line (result2\<lparr> code := Some generated \<rparr>)
                         (check_mark @ '' Code generated'')
         in case optimizerAgent agents generated of
              Inl e \<Rightarrow> failed_run result3 e
            | Inr optimized \<Rightarrow>
        (let result4 = log_line (result3\<lparr> optimization := Some optimized \<rparr>)
                         (check_mark @ '' Code optimized'')
         in case deployAgent agents (optimizedCode optimized)
                   \<lparr> cfg_platform = ''vercel'', cfg_environment = ''production'',
                     cfg_domain = None, cfg_customDomain = None, cfg_url = None \<rparr> of
              Inl e \<Rightarrow> failed_run result4 e
            | Inr deployed \<Rightarrow>
                (if dep_success deployed \<and> \<not> missing (dep_url deployed)
                 then log_line (result4\<lparr> deploymentUrl := dep_url deployed \<rparr>)
                        (check_mark @ '' App deployed successfully'')
                 else log_line (result4\<lparr> errors := errors result4 @ [''Deployment failed''] \<rparr>)
                        (cross_mark @ '' Deployment failed''))
                \<lparr> success := True \<rparr>)))))"

section \<open>Sample environments\<close>

text \<open>
  An engine for the patterns that have no syntax character: such a pattern matches its
  own occurrences, from left to right and without overlap. It rejects every other
  pattern, as the constructor rejects \<open>c++\<close> (nothing to repeat); the valid patterns
  with syntax characters are not covered by this sample.
\<close>

definition syntax_character :: "char \<Rightarrow> bool" where
  "syntax_character c = (c \<in> set (''^$.*+?()[]{}|'' @ [CHR 0x5C]))"

function count_occurrences :: "string \<Rightarrow> string \<Rightarrow> nat" where
  "count_occurrences pat [] = (if pat = [] then 1 else 0)"
| "count_occurrences pat (c # cs) =
     (if pat = [] then Suc (count_occurrences pat cs)
      else if prefix pat (c # cs) then Suc (count_occurrences pat (drop (length pat) (c # cs)))
      else count_occurrences pat cs)"
  by pat_completeness auto
termination
  by (relation "measure (\<lambda>(pat, s). length s)") auto

definition literal_regexp :: regexp_engine where
  "literal_regexp pattern =
     (if list_ex syntax_character pattern then Inl (Err ''Invalid regular expression'')
      else Inr (count_occurrences pattern))"

text \<open>
  An environment in which every call to the outside fails: no text generation, no
  network, no cache file. (No request succeeds, so the encoding of the query does not
  matter.)
\<close>

definition offline_env :: research_env where
  "offline_env =
     \<lparr> generate = (\<lambda>p. Inl (Err ''model unavailable'')),
       regexp_new = literal_regexp,
       http_get = (\<lambda>u. Inl (Err ''Network Error'')),
       encodeURIComponent = (\<lambda>s. s),
       primary_elements = (\<lambda>page. []),
       generic_elements = (\<lambda>page. []),
       extractInsights = (\<lambda>s. []),
       extractCodePatterns = (\<lambda>s. []),
       extractUIPatterns = (\<lambda>s. []),
       cache_file = None,
       parse_keywords = (\<lambda>s. Inl (Err ''Unexpected token'')),
       parse_results = (\<lambda>s. Inl (Err ''Unexpected token'')),
       parse_cache = (\<lambda>s. Inl (Err ''Unexpected token'')),
       parse_json = (\<lambda>s. Inl (Err ''Unexpected token'')) \<rparr>"

text \<open>
  The same environment with a text-generation client that answers every prompt with
  the empty object, which \<open>JSON.parse\<close> reads.
\<close>

definition empty_object_env :: research_env where
  "empty_object_env =
     offline_env
       \<lparr> generate := (\<lambda>p. Inr ''{}''),
         parse_json := (\<lambda>s. if s = ''{}'' then Inr (Obj []) else Inl (Err ''Unexpected token'')) \<rparr>"

text \<open>
  A plan, and a planner whose client answers every prompt with a sentence that holds no
  JSON.
\<close>

definition shop_plan :: jsval where
  "shop_plan =
     Obj [(''name'', Str ''Shop''),
          (''description'', Str ''An online shop for bicycles''),
          (''features'', Arr [Str ''Catalogue'', Str ''Cart'', Str ''Checkout'']),
          (''techStack'',
             Obj [(''frontend'', Str ''Vue''),
                  (''backend'', Str ''Django''),
                  (''database'', Str ''SQLite''),
                  (''deployment'', Str ''Netlify'')]),
          (''structure'',
             Obj [(''pages'', Arr [Str ''Home'', Str ''Product'', Str ''Cart'']),
                  (''components'', Arr [Str ''ProductCard'']),
                  (''api'', Arr [Str ''/api/products''])]),
          (''timeline'', Str ''2 weeks''),
          (''complexity'', Str ''complex'')]"

definition prose_planner :: planner_env where
  "prose_planner =
     \<lparr> getModelClient = Inr (),
       generateText = (\<lambda>r. Inr ''Sorry, I cannot refine this plan.''),
       JSON_parse = (\<lambda>s. Inl (Err ''Unexpected token'')) \<rparr>"

text \<open>
  A deploy agent built without tokens, as the orchestrator builds it, with no provider
  in reach; and one that holds every token and finds two deployments at each provider,
  the latest first, with providers that do what they are asked.
\<close>

definition bare_deploy_env :: deploy_env where
  "bare_deploy_env =
     \<lparr> vercelToken = None, netlifyToken = None, railwayToken = None,
       awsAccessKeyId = None, awsSecretAccessKey = None, awsRegion = None,
       configuration_files = (\<lambda>c cfg. []),
       vercel_upload = (\<lambda>fs. Inl (Err ''Network Error'')),
       netlify_upload = (\<lambda>fs. Inl (Err ''Network Error'')),
       railway_upload = (\<lambda>fs. Inl (Err ''Network Error'')),
       aws_upload = (\<lambda>fs region. Inl (Err ''Network Error'')),
       vercel_deployment = (\<lambda>d. Inl (Err ''Network Error'')),
       netlify_site = (\<lambda>d. Inl (Err ''Network Error'')),
       railway_deployment = (\<lambda>d. Inl (Err ''Network Error'')),
       vercel_project = (\<lambda>d. Inl (Err ''Network Error'')),
       vercel_deployments = (\<lambda>p. Inl (Err ''Network Error'')),
       vercel_promote = (\<lambda>u. Inl (Err ''Network Error'')),
       netlify_deploys = (\<lambda>s. Inl (Err ''Network Error'')),
       netlify_restore = (\<lambda>d. Inl (Err ''Network Error'')),
       railway_deployments = Inl (Err ''Network Error''),
       railway_rollback = (\<lambda>d. Inl (Err ''Network Error'')) \<rparr>"




text \<open>
  Agents whose stages up to the optimization succeed on an empty bundle, with the deploy
  agent that has no token.
\<close>

definition empty_bundle :: GeneratedCode where
  "empty_bundle =
     \<lparr> frontend = \<lparr> components = [], pages = [], styles = [], fconfig = Obj [] \<rparr>,
       backend = \<lparr> routes = [], models = [], middleware = [], bconfig = Obj [] \<rparr>,
       database = \<lparr> schema = [], migrations = [], seeds = [] \<rparr>,
       deployment = \<lparr> dockerfile = [], dockerCompose = [], vercelConfig = Obj [] \<rparr> \<rparr>"

text \<open>A bundle whose only file is a component that shows an image.\<close>

definition logo_bundle :: GeneratedCode where
  "logo_bundle =
     empty_bundle \<lparr> frontend := (frontend empty_bundle) \<lparr> components := [(''Logo.tsx'', ''<img>'')] \<rparr> \<rparr>"

definition empty_optimization :: OptimizationResult where
  "empty_optimization =
     \<lparr> opt_success = True, optimizedCode = empty_bundle,
       improvements = [''Performance optimizations applied'', ''Security improvements applied'',
                       ''Code maintainability improved''],
       issues = [], performanceScore = 100, securityScore = 100, maintainabilityScore = 100 \<rparr>"

definition tokenless_agents :: "jsval agents" where
  "tokenless_agents =
     \<lparr> researchAgent = (\<lambda>p. Inr fallback_summary),
       plannerAgent = (\<lambda>r found. Inr (fallback_plan ''Todo List App'')),
       codeAgent = (\<lambda>p r. Inr empty_bundle),
       optimizerAgent = (\<lambda>c. Inr empty_optimization),
       deployAgent = deployApp bare_deploy_env,
       now = 1700000000000 \<rparr>"

definition todo_request :: AppGenerationRequest where
  "todo_request =
     \<lparr> prompt = ''todo list app'', platform = ''web'', features = [],
       style = ''modern'', targetAudience = ''general'' \<rparr>"

section \<open>Properties of the scores\<close>

lemma foldl_penalty_le:
  fixes pen :: "string \<Rightarrow> int"
  assumes "\<And>c. 0 \<le> pen c"
  shows "foldl (\<lambda>score content. score - pen content) s cs \<le> s"
proof (induction cs arbitrary: s)
  case Nil
  show ?case by simp
next
  case (Cons c cs)
  have "foldl (\<lambda>score content. score - pen content) (s - pen c) cs \<le> s - pen c"
    by (rule Cons.IH)
  also have "\<dots> \<le> s" using assms [of c] by simp
  finally show ?case by simp
qed

lemma performance_penalty_nonneg: "0 \<le> performance_penalty c"
  by (simp add: performance_penalty_def)

lemma security_penalty_nonneg: "0 \<le> security_penalty c"
  by (simp add: security_penalty_def)

lemma maintainability_penalty_nonneg: "0 \<le> maintainability_penalty c"
  by (simp add: maintainability_penalty_def)

text \<open>
  C7. For every code bundle, the performance, security and maintainability scores each
  lie in the closed interval from 0 to 100.
\<close>

theorem scores_in_range:
  "0 \<le> calculatePerformanceScore B \<and> calculatePerformanceScore B \<le> 100
   \<and> 0 \<le> calculateSecurityScore B \<and> calculateSecurityScore B \<le> 100
   \<and> 0 \<le> calculateMaintainabilityScore B \<and> calculateMaintainabilityScore B \<le> 100"
proof -
  have p: "foldl (\<lambda>score content. score - performance_penalty content) 100
             (map snd (components (frontend B))) \<le> 100"
    by (rule foldl_penalty_le) (rule performance_penalty_nonneg)
  have s: "foldl (\<lambda>score content. score - security_penalty content) 100
             (map snd (routes (backend B))) \<le> 100"
    by (rule foldl_penalty_le) (rule security_penalty_nonneg)
  have m: "foldl (\<lambda>score content. score - maintainability_penalty content) 100
             (map snd (components (frontend B))) \<le> 100"
    by (rule foldl_penalty_le) (rule maintainability_penalty_nonneg)
  show ?thesis
    using p s m
    by (simp add: calculatePerformanceScore_def calculateSecurityScore_def
        calculateMaintainabilityScore_def)
qed

section \<open>Properties of the performance pass\<close>

lemma split_on_nonempty: "split_on sep s \<noteq> []"
  by (induction s) (auto split: list.splits)

lemma split_on_no_sep: "l \<in> set (split_on sep s) \<Longrightarrow> sep \<notin> set l"
proof (induction s arbitrary: l)
  case Nil
  then show ?case by simp
next
  case (Cons c cs)
  show ?case
  proof (cases "c = sep")
    case True
    with Cons show ?thesis by auto
  next
    case False
    obtain w ws where ws: "split_on sep cs = w # ws"
      using split_on_nonempty [of sep cs] by (cases "split_on sep cs") auto
    with Cons.prems False have "l = c # w \<or> l \<in> set ws"
      by simp
    then show ?thesis
    proof
      assume "l = c # w"
      moreover have "sep \<notin> set w"
        using Cons.IH [of w] ws by simp
      ultimately show ?thesis using False by auto
    next
      assume "l \<in> set ws"
      then show ?thesis using Cons.IH [of l] ws by simp
    qed
  qed
qed

lemma split_on_chars: "l \<in> set (split_on sep s) \<Longrightarrow> set l \<subseteq> set s"
proof (induction s arbitrary: l)
  case Nil
  then show ?case by simp
next
  case (Cons c cs)
  show ?case
  proof (cases "c = sep")
    case True
    with Cons show ?thesis by auto
  next
    case False
    obtain w ws where ws: "split_on sep cs = w # ws"
      using split_on_nonempty [of sep cs] by (cases "split_on sep cs") auto
    with Cons.prems False have "l = c # w \<or> l \<in> set ws"
      by simp
    then show ?thesis
    proof
      assume "l = c # w"
      moreover have "set w \<subseteq> set cs"
        using Cons.IH [of w] ws by simp
      ultimately show ?thesis by auto
    next
      assume "l \<in> set ws"
      then have "set l \<subseteq> set cs" using Cons.IH [of l] ws by simp
      then show ?thesis by auto
    qed
  qed
qed

lemma split_on_free: "sep \<notin> set s \<Longrightarrow> split_on sep s = [s]"
  by (induction s) auto

lemma split_on_append:
  "sep \<notin> set x \<Longrightarrow> split_on sep (x @ sep # r) = x # split_on sep r"
  by (induction x) auto

lemma split_on_join:
  "ls \<noteq> [] \<Longrightarrow> \<forall>l \<in> set ls. sep \<notin> set l \<Longrightarrow> split_on sep (join [sep] ls) = ls"
proof (induction ls rule: induct_list012)
  case 1
  then show ?case by simp
next
  case (2 x)
  then show ?case by (simp add: split_on_free)
next
  case (3 x y zs)
  then have "split_on sep (join [sep] (y # zs)) = y # zs"
    by simp
  moreover have "sep \<notin> set x"
    using "3.prems" by simp
  ultimately show ?case
    by (simp add: split_on_append)
qed

lemma set_join: "set (join sep xs) \<subseteq> set sep \<union> \<Union> (set ` set xs)"
  by (induction sep xs rule: join.induct) auto

lemma set_substitution:
  "set (substitution m b a t) \<subseteq> set m \<union> set b \<union> set a \<union> set t"
proof (induction m b a t rule: substitution.induct)
  case (1 m b a)
  show ?case by simp
next
  case (2 m b a c)
  show ?case by simp
next
  case (3 m b a c d r)
  show ?case
  proof (cases "c = CHR ''$''")
    case False
    with 3 show ?thesis by (simp add: subset_iff)
  next
    case True
    note c = this
    show ?thesis
    proof (cases "d = CHR ''$''")
      case True
      with c 3 show ?thesis by (simp add: subset_iff)
    next
      case False
      note d1 = this
      show ?thesis
      proof (cases "d = CHR ''&''")
        case True
        with c d1 3 show ?thesis by (simp add: subset_iff)
      next
        case False
        note d2 = this
        show ?thesis
        proof (cases "d = CHR 0x60")
          case True
          with c d1 d2 3 show ?thesis by (simp add: subset_iff)
        next
          case False
          note d3 = this
          show ?thesis
          proof (cases "d = CHR 0x27")
            case True
            with c d1 d2 d3 3 show ?thesis by (simp add: subset_iff)
          next
            case False
            with c d1 d2 d3 3 show ?thesis by (simp add: subset_iff)
          qed
        qed
      qed
    qed
  qed
qed

lemma split_at_first_Some:
  "split_at_first pat s = Some (pre, post) \<Longrightarrow> s = pre @ pat @ post"
proof (induction s arbitrary: pre post)
  case Nil
  then show ?case by (simp split: if_splits)
next
  case (Cons c cs)
  show ?case
  proof (cases "prefix pat (c # cs)")
    case True
    with Cons.prems have "pre = []" and "post = drop (length pat) (c # cs)"
      by simp_all
    moreover from True obtain r where "c # cs = pat @ r"
      by (auto simp: prefix_def)
    ultimately show ?thesis by simp
  next
    case False
    with Cons.prems obtain pre' where "split_at_first pat cs = Some (pre', post)" and "pre = c # pre'"
      by (auto split: option.splits)
    with Cons.IH [of pre' post] show ?thesis by simp
  qed
qed

lemma set_js_replace: "set (js_replace s pat t) \<subseteq> set s \<union> set t"
proof (cases "split_at_first pat s")
  case None
  then show ?thesis by (simp add: js_replace_def)
next
  case (Some p)
  obtain pre post where p: "p = (pre, post)" by (cases p)
  with Some have s: "s = pre @ pat @ post"
    by (simp add: split_at_first_Some)
  have "set (substitution pat pre post t) \<subseteq> set pat \<union> set pre \<union> set post \<union> set t"
    by (rule set_substitution)
  with Some p s show ?thesis
    by (auto simp: js_replace_def)
qed

lemma set_trim: "set (trim s) \<subseteq> set s"
proof -
  have "set (dropWhile is_space (rev (dropWhile is_space s))) \<subseteq> set (rev (dropWhile is_space s))"
    by (rule set_dropWhileD [THEN subsetI])
  also have "\<dots> \<subseteq> set s"
    using set_dropWhileD [of _ is_space s] by auto
  finally show ?thesis by (simp add: trim_def)
qed

lemma match_import_at_chars: "match_import_at s = Some names \<Longrightarrow> set names \<subseteq> set s"
proof -
  assume a: "match_import_at s = Some names"
  then obtain b r where br: "dropWhile is_space (drop 6 s) = b # r"
    and n: "names = takeWhile (\<lambda>x. x \<noteq> CHR ''}'') r"
    by (auto simp: match_import_at_def Let_def split: if_splits list.splits)
  have "set names \<subseteq> set r"
    using n set_takeWhileD [of _ "\<lambda>x. x \<noteq> CHR ''}''" r] by auto
  also have "\<dots> \<subseteq> set (dropWhile is_space (drop 6 s))"
    using br by auto
  also have "\<dots> \<subseteq> set (drop 6 s)"
    using set_dropWhileD [of _ is_space "drop 6 s"] by auto
  also have "\<dots> \<subseteq> set s"
    by (rule set_drop_subset)
  finally show ?thesis .
qed

lemma match_import_chars: "match_import s = Some names \<Longrightarrow> set names \<subseteq> set s"
proof (induction s)
  case Nil
  then show ?case using match_import_at_chars [of "[]" names] by simp
next
  case (Cons c cs)
  show ?case
  proof (cases "match_import_at (c # cs)")
    case None
    with Cons show ?thesis by auto
  next
    case (Some a)
    with Cons.prems have "match_import_at (c # cs) = Some names" by simp
    then show ?thesis by (rule match_import_at_chars)
  qed
qed

lemma import_names_chars: "imp \<in> set (import_names names) \<Longrightarrow> set imp \<subseteq> set names"
proof -
  assume "imp \<in> set (import_names names)"
  then obtain piece where p: "piece \<in> set (split_on CHR '','' names)" and i: "imp = trim piece"
    by (auto simp: import_names_def)
  have "set imp \<subseteq> set piece" using i set_trim by simp
  also have "\<dots> \<subseteq> set names" using p by (rule split_on_chars)
  finally show ?thesis .
qed

lemma rewrite_import_line_newline:
  assumes "CHR 0x0A \<notin> set line"
  shows "CHR 0x0A \<notin> set (rewrite_import_line used line)"
proof (cases "match_import line")
  case None
  with assms show ?thesis by (simp add: rewrite_import_line_def)
next
  case (Some names)
  then have names: "set names \<subseteq> set line"
    by (rule match_import_chars)
  define kept where "kept = filter (\<lambda>imp. imp \<in> set used) (import_names names)"
  have "\<Union> (set ` set kept) \<subseteq> set names"
    using import_names_chars [of _ names] by (auto simp: kept_def)
  then have "set (join '', '' kept) \<subseteq> set '', '' \<union> set names"
    using set_join [of "'', ''" kept] by blast
  then have t: "CHR 0x0A \<notin> set (''{'' @ join '', '' kept @ ''}'')"
    using names assms by auto
  have "set (js_replace line (''{'' @ names @ ''}'') (''{'' @ join '', '' kept @ ''}''))
          \<subseteq> set line \<union> set (''{'' @ join '', '' kept @ ''}'')"
    by (rule set_js_replace)
  with t assms
  have "CHR 0x0A \<notin> set (js_replace line (''{'' @ names @ ''}'') (''{'' @ join '', '' kept @ ''}''))"
    by blast
  with Some assms show ?thesis
    by (simp add: rewrite_import_line_def Let_def kept_def)
qed

lemma removeUnusedImports_lines:
  assumes "removeUnusedImports content \<noteq> []"
  shows "\<forall>line \<in> set (split_on CHR 0x0A (removeUnusedImports content)). trim line \<noteq> []"
proof -
  define ls where "ls = filter (\<lambda>line. trim line \<noteq> [])
     (map (rewrite_import_line (used_imports content)) (split_on CHR 0x0A content))"
  have out: "removeUnusedImports content = join [CHR 0x0A] ls"
    by (simp add: removeUnusedImports_def ls_def)
  with assms have ne: "ls \<noteq> []" by auto
  have "\<forall>l \<in> set ls. CHR 0x0A \<notin> set l"
    using split_on_no_sep [of _ "CHR 0x0A" content] rewrite_import_line_newline
    by (auto simp: ls_def)
  with ne have "split_on CHR 0x0A (join [CHR 0x0A] ls) = ls"
    by (rule split_on_join)
  with out show ?thesis by (simp add: ls_def)
qed

text \<open>
  C3. The performance pass is not idempotent: a component that holds an image tag gets
  the \<open>loading\<close> attribute a second time when the pass runs on its own output. The
  first pass turns \<open><img>\<close> into \<open><img loading="lazy" />\<close>, the second turns that into
  \<open><img loading="lazy" / loading="lazy" />\<close>.
\<close>

theorem performance_pass_twice_img:
  "optimize_component ''Logo.tsx'' ''<img>'' = ''<img loading=\"lazy\" />''
   \<and> optimize_component ''Logo.tsx'' (optimize_component ''Logo.tsx'' ''<img>'')
       = ''<img loading=\"lazy\" / loading=\"lazy\" />''
   \<and> components (frontend (optimizePerformance logo_bundle))
       = [(''Logo.tsx'', ''<img loading=\"lazy\" />'')]
   \<and> components (frontend (optimizePerformance (optimizePerformance logo_bundle)))
       = [(''Logo.tsx'', ''<img loading=\"lazy\" / loading=\"lazy\" />'')]"
proof -
  have once: "optimize_component ''Logo.tsx'' ''<img>'' = ''<img loading=\"lazy\" />''"
    by code_simp
  have twice: "optimize_component ''Logo.tsx'' ''<img loading=\"lazy\" />''
                 = ''<img loading=\"lazy\" / loading=\"lazy\" />''"
    by code_simp
  have "components (frontend (optimizePerformance logo_bundle))
          = [(''Logo.tsx'', optimize_component ''Logo.tsx'' ''<img>'')]"
    by (simp add: optimizePerformance_def logo_bundle_def)
  moreover have "components (frontend (optimizePerformance (optimizePerformance logo_bundle)))
          = [(''Logo.tsx'', optimize_component ''Logo.tsx'' (optimize_component ''Logo.tsx'' ''<img>''))]"
    by (simp add: optimizePerformance_def logo_bundle_def)
  ultimately show ?thesis
    using once twice by simp
qed

text \<open>
  C10. For every frontend component, the output of the performance pass has no blank
  line: it is empty, or each of its lines has a character that is not white space.
\<close>

theorem performance_pass_no_blank_lines:
  "optimize_component filename content = []
   \<or> (\<forall>line \<in> set (split_on CHR 0x0A (optimize_component filename content)). trim line \<noteq> [])"
proof -
  obtain c where "optimize_component filename content = removeUnusedImports c"
    by (simp add: optimize_component_def Let_def)
  then show ?thesis
    using removeUnusedImports_lines [of c] by auto
qed

theorem performance_pass_no_blank_lines_witness:
  "optimize_component ''App.tsx'' (''const a = 1'' @ [CHR 0x0A] @ ''  '' @ [CHR 0x0A, CHR 0x0A] @ ''a'')
     = ''const a = 1'' @ [CHR 0x0A] @ ''a''
   \<and> ''a'' \<in> set (split_on CHR 0x0A
        (optimize_component ''App.tsx'' (''const a = 1'' @ [CHR 0x0A] @ ''  '' @ [CHR 0x0A, CHR 0x0A] @ ''a'')))
   \<and> trim ''a'' \<noteq> []"
proof -
  let ?src = "''const a = 1'' @ [CHR 0x0A] @ ''  '' @ [CHR 0x0A, CHR 0x0A] @ ''a''"
  have out: "optimize_component ''App.tsx'' ?src = ''const a = 1'' @ [CHR 0x0A] @ ''a''"
    by code_simp
  have mem: "''a'' \<in> set (split_on CHR 0x0A (optimize_component ''App.tsx'' ?src))"
    unfolding out by code_simp
  have "optimize_component ''App.tsx'' ?src \<noteq> []"
    unfolding out by simp
  with performance_pass_no_blank_lines [of "''App.tsx''" ?src]
  have "\<forall>line \<in> set (split_on CHR 0x0A (optimize_component ''App.tsx'' ?src)). trim line \<noteq> []"
    by blast
  with mem have "trim ''a'' \<noteq> []" by blast
  with out mem show ?thesis by blast
qed

section \<open>Properties of the research agent\<close>

lemma relevance_score_fails:
  "k \<in> set kws \<Longrightarrow> engine (toLowerCase k) = Inl e
     \<Longrightarrow> \<exists>e'. relevance_score engine c kws score = Inl e'"
proof (induction kws arbitrary: score)
  case Nil
  then show ?case by simp
next
  case (Cons a kws)
  show ?case
  proof (cases "engine (toLowerCase a)")
    case (Inl e1)
    then show ?thesis by simp
  next
    case (Inr f)
    with Cons.prems have "k \<in> set kws" by auto
    with Cons.IH Cons.prems(2) Inr show ?thesis by simp
  qed
qed

lemma relevance_score_bounds:
  "relevance_score engine c kws score = Inr r \<Longrightarrow> 0 \<le> score \<Longrightarrow> 0 \<le> r"
proof (induction kws arbitrary: score)
  case Nil
  then show ?case by simp
next
  case (Cons a kws)
  then show ?case
    by (cases "engine (toLowerCase a)") auto
qed

lemma calculateRelevance_bounds:
  "calculateRelevance engine content kws = Inr r \<Longrightarrow> 0 \<le> r \<and> r \<le> 1"
  using relevance_score_bounds [of engine "toLowerCase content" kws 0]
  by (auto simp: calculateRelevance_def split: sum.splits)

text \<open>Whether the score can be computed depends on the keywords only.\<close>

lemma relevance_score_content:
  "relevance_score engine c kws s = Inr r
     \<Longrightarrow> \<exists>r'. relevance_score engine c' kws s' = Inr r'"
proof (induction kws arbitrary: s s')
  case Nil
  then show ?case by simp
next
  case (Cons a kws)
  then show ?case
    by (cases "engine (toLowerCase a)") auto
qed

lemma calculateRelevance_content:
  assumes "calculateRelevance engine c kws = Inr r"
  shows "\<exists>r'. calculateRelevance engine c' kws = Inr r'"
proof -
  from assms obtain s where "relevance_score engine (toLowerCase c) kws 0 = Inr s"
    by (auto simp: calculateRelevance_def split: sum.splits)
  then obtain s' where "relevance_score engine (toLowerCase c') kws 0 = Inr s'"
    using relevance_score_content by blast
  then show ?thesis by (simp add: calculateRelevance_def)
qed

text \<open>
  C8. The relevance computation fails for a keyword that the pattern constructor
  rejects: the keyword is used as a pattern as it is.
\<close>

theorem relevance_fails_on_rejected_keyword:
  assumes "k \<in> set kws" and "engine (toLowerCase k) = Inl e"
  shows "\<exists>e'. calculateRelevance engine content kws = Inl e'"
proof -
  from assms obtain e' where "relevance_score engine (toLowerCase content) kws 0 = Inl e'"
    using relevance_score_fails by blast
  then show ?thesis by (simp add: calculateRelevance_def)
qed

theorem relevance_fails_on_rejected_keyword_witness:
  "''C++'' \<in> set [''C++''] \<and> literal_regexp (toLowerCase ''C++'') = Inl (Err ''Invalid regular expression'')
   \<and> calculateRelevance literal_regexp ''Learn C++ fast'' [''C++'']
       = Inl (Err ''Invalid regular expression'')"
proof -
  have k: "''C++'' \<in> set [''C++'']" by simp
  have r: "literal_regexp (toLowerCase ''C++'') = Inl (Err ''Invalid regular expression'')"
    by (simp add: literal_regexp_def syntax_character_def toLowerCase_def lower_char_def)
  from relevance_fails_on_rejected_keyword
         [of "''C++''" "[''C++'']" literal_regexp "Err ''Invalid regular expression''"
             "''Learn C++ fast''"] k r
  obtain e' where e: "calculateRelevance literal_regexp ''Learn C++ fast'' [''C++''] = Inl e'"
    by blast
  have "calculateRelevance literal_regexp ''Learn C++ fast'' [''C++'']
          = Inl (Err ''Invalid regular expression'')"
    by code_simp
  with k r e show ?thesis by simp
qed

lemma collect_results_no_failure:
  assumes "calculateRelevance (regexp_new env) c kws = Inr r"
  shows "snd (collect_results env kws els acc) = None"
proof (induction els arbitrary: acc)
  case Nil
  show ?case by simp
next
  case (Cons el els)
  show ?case
  proof (cases "el_href el")
    case None
    with Cons show ?thesis by simp
  next
    case (Some href)
    obtain r' where "calculateRelevance (regexp_new env) (el_snippet el) kws = Inr r'"
      using calculateRelevance_content [OF assms] by blast
    with Some Cons show ?thesis by simp
  qed
qed

lemma collect_results_failure:
  "collect_results env kws els acc = (rs, Some e) \<Longrightarrow> rs = acc"
proof (induction els arbitrary: acc)
  case Nil
  then show ?case by simp
next
  case (Cons el els)
  show ?case
  proof (cases "el_href el")
    case None
    with Cons show ?thesis by simp
  next
    case (Some href)
    show ?thesis
    proof (cases "el_title el \<noteq> [] \<and> href \<noteq> [] \<and> el_snippet el \<noteq> []")
      case False
      with Some Cons show ?thesis by auto
    next
      case True
      show ?thesis
      proof (cases "calculateRelevance (regexp_new env) (el_snippet el) kws")
        case (Inl e')
        with Some True Cons.prems show ?thesis by simp
      next
        case (Inr rel)
        let ?acc' = "acc @
            [\<lparr> url = (if prefix ''//'' href then ''https:'' @ href else href),
               title = el_title el, snippet = el_snippet el, relevance = rel,
               insights = extractInsights env (el_snippet el),
               codePatterns = extractCodePatterns env (el_snippet el),
               uiPatterns = extractUIPatterns env (el_snippet el) \<rparr>]"
        have "snd (collect_results env kws els ?acc') = None"
          using Inr by (rule collect_results_no_failure)
        moreover have "collect_results env kws els ?acc' = (rs, Some e)"
          using Cons.prems Some True Inr by simp
        ultimately show ?thesis by simp
      qed
    qed
  qed
qed

text \<open>When the primary provider fails, nothing has been pushed.\<close>

lemma primary_search_failure:
  "primary_search env kws = (rs, Some e) \<Longrightarrow> rs = []"
  by (auto simp: primary_search_def split: sum.splits dest: collect_results_failure)

lemma fallbackSearch_empty:
  "searchWithAlternativeEngines env kws = [] \<Longrightarrow> searchWithCachedResults env kws = []
     \<Longrightarrow> searchWithAIKnowledge env kws = [] \<Longrightarrow> fallbackSearch env kws = []"
  by (simp add: fallbackSearch_def)

text \<open>How each strategy comes to nothing when what it calls fails.\<close>

lemma try_engines_offline:
  "\<forall>u. \<exists>e. http_get env u = Inl e \<Longrightarrow> try_engines env kws engines = []"
proof (induction engines)
  case Nil
  show ?case by simp
next
  case (Cons engine engines)
  from Cons.prems obtain e
    where "http_get env (engine @ encodeURIComponent env (join '' '' kws)) = Inl e"
    by blast
  then have "engine_search env engine kws = ([], Some e)"
    by (simp add: engine_search_def)
  with Cons show ?case by simp
qed

lemma alternative_engines_offline:
  "\<forall>u. \<exists>e. http_get env u = Inl e \<Longrightarrow> searchWithAlternativeEngines env kws = []"
  unfolding searchWithAlternativeEngines_def by (rule try_engines_offline)

lemma cached_results_no_file:
  "cache_file env = None \<Longrightarrow> searchWithCachedResults env kws = []"
  by (simp add: searchWithCachedResults_def)

lemma ai_knowledge_generation_fails:
  "generate env (KnowledgePrompt kws) = Inl e \<Longrightarrow> searchWithAIKnowledge env kws = []"
  by (simp add: searchWithAIKnowledge_def)

text \<open>
  C6. When the primary provider fails or finds nothing and each of the three strategies
  of the fallback comes to nothing, the search returns the empty sequence.
\<close>

theorem search_empty_when_all_strategies_fail:
  assumes "snd (primary_search env kws) \<noteq> None \<or> fst (primary_search env kws) = []"
    and "searchWithAlternativeEngines env kws = []"
    and "searchWithCachedResults env kws = []"
    and "searchWithAIKnowledge env kws = []"
  shows "searchWeb env kws = []"
proof -
  obtain rs outcome where p: "primary_search env kws = (rs, outcome)"
    by (cases "primary_search env kws")
  have f: "fallbackSearch env kws = []"
    using assms(2-4) by (rule fallbackSearch_empty)
  have "rs = []"
  proof (cases outcome)
    case None
    with assms(1) p show ?thesis by simp
  next
    case (Some e)
    with p show ?thesis by (simp add: primary_search_failure)
  qed
  with p f show ?thesis
    by (cases outcome) (simp_all add: searchWeb_def sort_by_relevance_def)
qed

theorem search_empty_when_all_strategies_fail_witness:
  "snd (primary_search offline_env [''xyzxyz_no_such_topic'']) \<noteq> None
   \<and> searchWithAlternativeEngines offline_env [''xyzxyz_no_such_topic''] = []
   \<and> searchWithCachedResults offline_env [''xyzxyz_no_such_topic''] = []
   \<and> searchWithAIKnowledge offline_env [''xyzxyz_no_such_topic''] = []
   \<and> searchWeb offline_env [''xyzxyz_no_such_topic''] = []"
proof -
  let ?kws = "[''xyzxyz_no_such_topic'']"
  have p: "snd (primary_search offline_env ?kws) \<noteq> None"
    by (simp add: primary_search_def offline_env_def)
  have a: "searchWithAlternativeEngines offline_env ?kws = []"
    by (rule alternative_engines_offline) (simp add: offline_env_def)
  have c: "searchWithCachedResults offline_env ?kws = []"
    by (rule cached_results_no_file) (simp add: offline_env_def)
  have k: "searchWithAIKnowledge offline_env ?kws = []"
    by (rule ai_knowledge_generation_fails [of _ _ "Err ''model unavailable''"])
       (simp add: offline_env_def)
  from p have "snd (primary_search offline_env ?kws) \<noteq> None
                 \<or> fst (primary_search offline_env ?kws) = []"
    by simp
  then have "searchWeb offline_env ?kws = []"
    using a c k by (rule search_empty_when_all_strategies_fail)
  with p a c k show ?thesis by simp
qed

lemma has_fallback_summary_fields: "has_summary_fields fallback_summary"
  by (simp add: fallback_summary_def summary_fields_def)

text \<open>
  C1. \<open>researchApp\<close> fails when the text-generation client fails at the keyword
  extraction: the call stands before the \<open>try\<close> of \<open>extractKeywords\<close>, so neither the
  fallback keywords nor the default summary are reached, and the failure is the outcome
  of \<open>researchApp\<close>.
\<close>

theorem research_fails_when_generation_fails:
  "generate env (KeywordPrompt ask plan) = Inl e \<Longrightarrow> researchApp env ask plan = Inl e"
  by (simp add: researchApp_def extractKeywords_def)

theorem research_fails_when_generation_fails_witness:
  "generate offline_env (KeywordPrompt ''todo list app'' None) = Inl (Err ''model unavailable'')
   \<and> researchApp offline_env ''todo list app'' None = Inl (Err ''model unavailable'')"
proof -
  have g: "generate offline_env (KeywordPrompt ''todo list app'' None)
             = Inl (Err ''model unavailable'')"
    by (simp add: offline_env_def)
  from research_fails_when_generation_fails [OF g] g show ?thesis
    by simp
qed

text \<open>
  The object parsed from the analysis is returned unchecked: with a client that answers
  \<open>{}\<close> to every prompt, \<open>researchApp\<close> returns an object that has none of the six
  fields.
\<close>

lemma generate_empty_object [simp]: "generate empty_object_env p = Inr ''{}''"
  by (simp add: empty_object_env_def)

lemma research_returns_unchecked_object:
  "researchApp empty_object_env ''todo list app'' None = Inr (Obj [])
   \<and> \<not> has_summary_fields (Obj [])"
proof -
  have "researchApp empty_object_env ''todo list app'' None = Inr (Obj [])"
    by (simp add: researchApp_def extractKeywords_def analyzeResults_def
        summary_of_response_def match_delimited_def)
       (simp add: empty_object_env_def)
  moreover have "\<not> has_summary_fields (Obj [])"
    by (simp add: summary_fields_def)
  ultimately show ?thesis by simp
qed

section \<open>Properties of the planner agent\<close>

lemma refinePlan_returns: "\<exists>result. refinePlan env plan feedback = Inr result"
  by (auto simp: refinePlan_def split: sum.splits)

text \<open>When the client or its call fails, the plan comes back unchanged.\<close>

lemma refinePlan_client_fails:
  "getModelClient env = Inl e \<Longrightarrow> refinePlan env plan feedback = Inr plan"
  by (simp add: refinePlan_def)

lemma refinePlan_generation_fails:
  "generateText env \<lparr> request_prompt = RefinementPrompt plan feedback,
                      maxTokens = 2000, temperature = 1 / 2 \<rparr> = Inl e
     \<Longrightarrow> refinePlan env plan feedback = Inr plan"
  by (simp add: refinePlan_def split: sum.splits)

text \<open>
  When the response holds no JSON, \<open>parsePlan\<close> has already answered with the fallback
  plan, and \<open>refinePlan\<close> returns it.
\<close>

lemma parsePlan_without_json:
  "match_delimited CHR ''{'' CHR ''}'' response = None
     \<Longrightarrow> parsePlan parse response (Str name) = createFallbackPlan (Str name)"
  by (simp add: parsePlan_def createFallbackPlan_def)

lemma refinePlan_without_json:
  assumes "getModelClient env = Inr ()"
    and "generateText env \<lparr> request_prompt = RefinementPrompt plan feedback,
                           maxTokens = 2000, temperature = 1 / 2 \<rparr> = Inr response"
    and "match_delimited CHR ''{'' CHR ''}'' response = None"
    and "get_prop plan ''name'' = Inr (Str name)"
    and "generateAppName (Str name) = Inr appName"
  shows "refinePlan env plan feedback = Inr (fallback_plan appName)"
  using assms by (simp add: refinePlan_def parsePlan_def)

text \<open>
  C5. With a response that holds no JSON, \<open>refinePlan\<close> does not give the plan back: a
  plan for a shop comes back as the generic fallback plan named \<open>Shop App\<close>.
\<close>

theorem refine_discards_plan_without_json:
  "refinePlan prose_planner shop_plan ''add a search box'' = Inr (fallback_plan ''Shop App'')
   \<and> fallback_plan ''Shop App'' \<noteq> shop_plan"
proof -
  have "generateAppName (Str ''Shop'') = Inr ''Shop App''"
    by code_simp
  moreover have "match_delimited CHR ''{'' CHR ''}'' ''Sorry, I cannot refine this plan.'' = None"
    by code_simp
  moreover have "get_prop shop_plan ''name'' = Inr (Str ''Shop'')"
    by (simp add: shop_plan_def)
  ultimately have "refinePlan prose_planner shop_plan ''add a search box''
                     = Inr (fallback_plan ''Shop App'')"
    by (intro refinePlan_without_json [where name = "''Shop''"])
       (simp_all add: prose_planner_def)
  moreover have "fallback_plan ''Shop App'' \<noteq> shop_plan"
    by (simp add: fallback_plan_def shop_plan_def)
  ultimately show ?thesis by simp
qed

section \<open>Properties of the deploy agent\<close>

text \<open>
  C9. For the platform \<open>aws\<close> the status check answers \<open>ready\<close> with the address built
  from the id, whatever the environment; for every platform it returns, and a failure
  inside it is the answer \<open>error\<close> with a log line that tells the failure.
\<close>

theorem status_check_always_answers:
  "checkDeploymentStatus env deploymentId ''aws''
     = Inr \<lparr> status = Ready,
             status_url = Some (''https://'' @ deploymentId @ ''.s3-website-us-east-1.amazonaws.com''),
             status_logs = [''AWS S3 deployment completed successfully''] \<rparr>
   \<and> (\<exists>result. checkDeploymentStatus env deploymentId target = Inr result)
   \<and> (status_switch env deploymentId target = Inl e \<longrightarrow>
        checkDeploymentStatus env deploymentId target
          = Inr \<lparr> status = Failed, status_url = None,
                  status_logs = [''Status check failed: '' @ error_message e] \<rparr>)"
proof -
  have "status_switch env deploymentId ''aws'' = checkAWSStatus deploymentId"
    by (simp add: status_switch_def)
  then have a: "checkDeploymentStatus env deploymentId ''aws''
     = Inr \<lparr> status = Ready,
             status_url = Some (''https://'' @ deploymentId @ ''.s3-website-us-east-1.amazonaws.com''),
             status_logs = [''AWS S3 deployment completed successfully''] \<rparr>"
    by (simp add: checkDeploymentStatus_def checkAWSStatus_def)
  have b: "\<exists>result. checkDeploymentStatus env deploymentId target = Inr result"
    by (cases "status_switch env deploymentId target") (simp_all add: checkDeploymentStatus_def)
  have c: "status_switch env deploymentId target = Inl e \<longrightarrow>
        checkDeploymentStatus env deploymentId target
          = Inr \<lparr> status = Failed, status_url = None,
                  status_logs = [''Status check failed: '' @ error_message e] \<rparr>"
    by (simp add: checkDeploymentStatus_def)
  from a b c show ?thesis by blast
qed

theorem status_check_always_answers_witness:
  "status_switch bare_deploy_env ''dpl_1'' ''vercel'' = Inl (Err ''Vercel token not provided'')
   \<and> checkDeploymentStatus bare_deploy_env ''dpl_1'' ''vercel''
       = Inr \<lparr> status = Failed, status_url = None,
               status_logs = [''Status check failed: Vercel token not provided''] \<rparr>
   \<and> checkDeploymentStatus bare_deploy_env ''my-bucket'' ''aws''
       = Inr \<lparr> status = Ready,
               status_url = Some ''https://my-bucket.s3-website-us-east-1.amazonaws.com'',
               status_logs = [''AWS S3 deployment completed successfully''] \<rparr>"
proof -
  have s: "status_switch bare_deploy_env ''dpl_1'' ''vercel'' = Inl (Err ''Vercel token not provided'')"
    by (simp add: status_switch_def checkVercelStatus_def bare_deploy_env_def)
  from status_check_always_answers
         [of bare_deploy_env "''dpl_1''" "''vercel''" "Err ''Vercel token not provided''"] s
  have f: "checkDeploymentStatus bare_deploy_env ''dpl_1'' ''vercel''
       = Inr \<lparr> status = Failed, status_url = None,
               status_logs = [''Status check failed: Vercel token not provided''] \<rparr>"
    by simp
  from status_check_always_answers [of bare_deploy_env "''my-bucket''"]
  have a: "checkDeploymentStatus bare_deploy_env ''my-bucket'' ''aws''
       = Inr \<lparr> status = Ready,
               status_url = Some ''https://my-bucket.s3-website-us-east-1.amazonaws.com'',
               status_logs = [''AWS S3 deployment completed successfully''] \<rparr>"
    by simp
  from s f a show ?thesis by simp
qed
















section \<open>Properties of the orchestrator\<close>

text \<open>
  C2. When the stages up to the optimization return and the deploy call returns an
  unsuccessful result, the run records the error \<open>Deployment failed\<close>, reports success
  and has no deployment address.
\<close>

theorem deployment_failure_is_not_fatal:
  assumes "researchAgent agents (prompt request) = Inr found"
    and "plannerAgent agents request found = Inr plan"
    and "codeAgent agents plan request = Inr generated"
    and "optimizerAgent agents generated = Inr optimized"
    and "deployAgent agents (optimizedCode optimized)
           \<lparr> cfg_platform = ''vercel'', cfg_environment = ''production'',
             cfg_domain = None, cfg_customDomain = None, cfg_url = None \<rparr> = Inr deployed"
    and "\<not> dep_success deployed"
  shows "success (generateApp agents request)
         \<and> deploymentUrl (generateApp agents request) = None
         \<and> errors (generateApp agents request) = [''Deployment failed'']"
  using assms by (simp add: generateApp_def Let_def log_line_def)

text \<open>\<open>deployApp\<close> always returns, and a failure inside it is an unsuccessful result.\<close>

lemma deployApp_returns: "\<exists>result. deployApp env c config = Inr result"
  by (simp add: deployApp_def Let_def split: sum.splits)

lemma deployApp_without_token:
  "deployApp bare_deploy_env c
     \<lparr> cfg_platform = ''vercel'', cfg_environment = ''production'',
       cfg_domain = None, cfg_customDomain = None, cfg_url = None \<rparr>
   = Inr \<lparr> dep_success = False, dep_url = None, dep_deploymentId = None,
           dep_logs = [], dep_errors = [''Vercel token not provided''] \<rparr>"
  by (simp add: deployApp_def Let_def deployToVercel_def bare_deploy_env_def)

theorem deployment_failure_is_not_fatal_witness:
  "deployAgent tokenless_agents (optimizedCode empty_optimization)
     \<lparr> cfg_platform = ''vercel'', cfg_environment = ''production'',
       cfg_domain = None, cfg_customDomain = None, cfg_url = None \<rparr>
     = Inr \<lparr> dep_success = False, dep_url = None, dep_deploymentId = None,
             dep_logs = [], dep_errors = [''Vercel token not provided''] \<rparr>
   \<and> success (generateApp tokenless_agents todo_request)
   \<and> deploymentUrl (generateApp tokenless_agents todo_request) = None
   \<and> errors (generateApp tokenless_agents todo_request) = [''Deployment failed'']"
proof -
  let ?failed = "\<lparr> dep_success = False, dep_url = None, dep_deploymentId = None,
                   dep_logs = [], dep_errors = [''Vercel token not provided''] \<rparr>"
  have r: "researchAgent tokenless_agents (prompt todo_request) = Inr fallback_summary"
    and p: "plannerAgent tokenless_agents todo_request fallback_summary
              = Inr (fallback_plan ''Todo List App'')"
    and c: "codeAgent tokenless_agents (fallback_plan ''Todo List App'') todo_request
              = Inr empty_bundle"
    and opt: "optimizerAgent tokenless_agents empty_bundle = Inr empty_optimization"
    by (simp_all add: tokenless_agents_def)
  have d: "deployAgent tokenless_agents (optimizedCode empty_optimization)
             \<lparr> cfg_platform = ''vercel'', cfg_environment = ''production'',
               cfg_domain = None, cfg_customDomain = None, cfg_url = None \<rparr> = Inr ?failed"
    by (simp add: tokenless_agents_def deployApp_without_token)
  have f: "\<not> dep_success ?failed"
    by simp
  from deployment_failure_is_not_fatal [OF r p c opt d f] d show ?thesis
    by simp
qed

end
